theory Spec2Isabelle
  imports Main "HOL-Library.Sublist"
begin

text \<open>
  A shallow embedding of \<open>scripts/uncrustify/format.py\<close>, the script that selects the C and
  C++ sources of a project and runs uncrustify on them, and of its class variant
  \<open>scripts/uncrustify/formatter.py\<close>.  Functions of the scripts keep their names; those of
  the class carry the prefix \<open>Formatter_\<close>.
\<close>

section \<open>Paths\<close>

text \<open>
  A \<open>pathlib.Path\<close> is its list of segments, together with whether it is anchored at the
  root directory.  \<open>Path("../.git")\<close> is \<open>Rel [''..'', ''.git'']\<close>.
\<close>

datatype path = Abs "string list" | Rel "string list"

text \<open>\<open>Path.joinpath(p, q)\<close>: an absolute second argument replaces the first.\<close>

fun joinpath :: "path \<Rightarrow> path \<Rightarrow> path" where
  "joinpath p (Abs q) = Abs q"
| "joinpath (Abs p) (Rel q) = Abs (p @ q)"
| "joinpath (Rel p) (Rel q) = Rel (p @ q)"

text \<open>\<open>sep.join(parts)\<close> of Python strings.\<close>

fun join :: "string \<Rightarrow> string list \<Rightarrow> string" where
  "join sep [] = []"
| "join sep [x] = x"
| "join sep (x # y # ys) = x @ sep @ join sep (y # ys)"

text \<open>\<open>Path.as_posix()\<close>, which on POSIX is also \<open>str(path)\<close>.\<close>

fun as_posix :: "path \<Rightarrow> string" where
  "as_posix (Abs ps) = ''/'' @ join ''/'' ps"
| "as_posix (Rel []) = ''.''"
| "as_posix (Rel (p # ps)) = join ''/'' (p # ps)"

text \<open>\<open>s.startswith(p)\<close> of Python strings.\<close>

fun startswith :: "string \<Rightarrow> string \<Rightarrow> bool" where
  "startswith s [] = True"
| "startswith [] (p # ps) = False"
| "startswith (c # cs) (p # ps) = (c = p \<and> startswith cs ps)"

text \<open>
  \<open>fnmatch\<close> for the patterns the scripts use: \<open>*\<close> matches any run of characters,
  every other character matches itself, and the whole name has to match.
\<close>

fun fnmatch :: "string \<Rightarrow> string \<Rightarrow> bool" where
  "fnmatch [] [] = True"
| "fnmatch [] (c # cs) = False"
| "fnmatch (p # ps) [] = (p = CHR ''*'' \<and> fnmatch ps [])"
| "fnmatch (p # ps) (c # cs) =
     (if p = CHR ''*'' then fnmatch ps (c # cs) \<or> fnmatch (p # ps) cs
      else p = c \<and> fnmatch ps cs)"

section \<open>The environment of a run\<close>

text \<open>
  The file system is the list of its directory entries, each at its physical location
  (the segments of its absolute path, through real directories only), in the order in which
  a directory walk meets them, together with the canonicalisation the operating system
  performs (\<open>os.path.realpath\<close>: symbolic links followed, \<open>.\<close> and \<open>..\<close> removed).
\<close>

record filesystem =
  entries :: "string list list"
  realpath :: "string list \<Rightarrow> string list"

datatype error = AttributeError | TypeError | FileNotFoundError | CalledProcessError int

record datetime =
  year :: nat
  month :: nat
  day :: nat
  hour :: nat
  minute :: nat
  second :: nat

text \<open>
  What a run depends on: the file system, the directory of the script
  (\<open>Path(__file__).parent.absolute()\<close>), the working directory of the process, the clock,
  what \<open>subprocess.check_output(["uncrustify", "--version"])\<close> gives (its output, or the
  exception it raises), and what launching a command line and waiting for it gives (the
  return code, or the exception \<open>subprocess.Popen\<close> raises), which may depend on the files
  the program has written.
\<close>

record env =
  fs :: filesystem
  PATH_OF_THIS_FILE :: "string list"
  cwd :: "string list"
  now :: datetime
  version_output :: "error + string"
  popen :: "string \<Rightarrow> (string \<rightharpoonup> string) \<Rightarrow> error + int"

text \<open>\<open>Path.resolve()\<close>: a relative path is taken from the working directory.\<close>

fun resolve :: "env \<Rightarrow> path \<Rightarrow> path" where
  "resolve e (Abs ps) = Abs (realpath (fs e) ps)"
| "resolve e (Rel ps) = Abs (realpath (fs e) (cwd e @ ps))"

definition evaluate_relative_path :: "env \<Rightarrow> path \<Rightarrow> path" where
  "evaluate_relative_path e p = resolve e (joinpath (Abs (PATH_OF_THIS_FILE e)) p)"

text \<open>
  \<open>Path(base).glob("**/" + pattern)\<close>: the entries physically below the directory that
  \<open>base\<close> names, at any depth, whose name matches the pattern; each is yielded as \<open>base\<close>
  extended by the segments that lead to it.
\<close>

fun relative_to :: "string list \<Rightarrow> string list \<Rightarrow> string list option" where
  "relative_to [] ps = Some ps"
| "relative_to (d # ds) [] = None"
| "relative_to (d # ds) (p # ps) = (if d = p then relative_to ds ps else None)"

definition glob_match :: "string list \<Rightarrow> string \<Rightarrow> string list \<Rightarrow> string list option" where
  "glob_match dir pattern entry =
     (case relative_to dir entry of
        None \<Rightarrow> None
      | Some r \<Rightarrow> if r \<noteq> [] \<and> fnmatch pattern (last r) then Some r else None)"

definition glob_recursive :: "env \<Rightarrow> path \<Rightarrow> string \<Rightarrow> path list" where
  "glob_recursive e base pattern =
     (case resolve e base of
        Abs dir \<Rightarrow> map (\<lambda>r. joinpath base (Rel r))
                     (List.map_filter (glob_match dir pattern) (entries (fs e)))
      | Rel dir \<Rightarrow> [])"

section \<open>Module constants\<close>

text \<open>
  \<open>EXCLUDE_DIRECTORIES\<close>: the nine literal entries, extended at import time by
  \<open>Path("../tests/").glob("**/build*")\<close>.  Both scripts build the same list.
\<close>

definition EXCLUDE_DIRECTORIES :: "env \<Rightarrow> path list" where
  "EXCLUDE_DIRECTORIES e =
     [Rel [''..'', ''.git''], Rel [''..'', ''bat''], Rel [''..'', ''build''],
      Rel [''..'', ''certs''], Rel [''..'', ''docker''], Rel [''..'', ''res''],
      Rel [''..'', ''scripts''], Rel [''..'', ''release''], Rel [''..'', ''tiny-AES-c'']]
     @ glob_recursive e (Rel [''..'', ''tests'']) ''build*''"

definition EXCLUDE_FILES :: "path list" where
  "EXCLUDE_FILES = [Rel [''..'', ''src'', ''foo.cpp''], Rel [''..'', ''src'', ''bar.h'']]"

definition SEARCH_PATH :: "env \<Rightarrow> path" where
  "SEARCH_PATH e = evaluate_relative_path e (Rel [''..''])"

text \<open>\<open>CONFIG_PATH\<close> of \<open>format.py\<close>.\<close>

definition CONFIG_PATH :: "env \<Rightarrow> path" where
  "CONFIG_PATH e = evaluate_relative_path e (Rel [''uncrustify.cfg''])"

text \<open>\<open>CONFIG_PATH\<close> of \<open>formatter.py\<close>.\<close>

definition Formatter_CONFIG_PATH :: "env \<Rightarrow> path" where
  "Formatter_CONFIG_PATH e = evaluate_relative_path e (Rel [''configs'', ''uncrustify.cfg''])"

definition UNCRUSTIFY_VERSION_TO_CHECK :: string where
  "UNCRUSTIFY_VERSION_TO_CHECK = ''Uncrustify-0.72.0_f''"

section \<open>The exclusion predicate\<close>

text \<open>The two \<open>for\<close> loops of \<open>is_file_excluded\<close>, each returning at its first hit.\<close>

fun in_exclude_directory :: "env \<Rightarrow> path \<Rightarrow> path list \<Rightarrow> bool" where
  "in_exclude_directory e file [] = False"
| "in_exclude_directory e file (exclude_directory # rest) =
     (if startswith (as_posix file) (as_posix (evaluate_relative_path e exclude_directory))
      then True
      else in_exclude_directory e file rest)"

fun is_exclude_file :: "env \<Rightarrow> path \<Rightarrow> path list \<Rightarrow> bool" where
  "is_exclude_file e file [] = False"
| "is_exclude_file e file (exclude_file # rest) =
     (if as_posix file = as_posix (evaluate_relative_path e exclude_file)
      then True
      else is_exclude_file e file rest)"

text \<open>\<open>is_file_excluded\<close> of \<open>format.py\<close>.\<close>

definition is_file_excluded :: "env \<Rightarrow> path \<Rightarrow> bool" where
  "is_file_excluded e file =
     (if in_exclude_directory e file (EXCLUDE_DIRECTORIES e) then True
      else if is_exclude_file e file EXCLUDE_FILES then True
      else False)"

text \<open>\<open>Formatter._is_file_excluded\<close> of \<open>formatter.py\<close>: the same two loops.\<close>

definition Formatter_is_file_excluded :: "env \<Rightarrow> path \<Rightarrow> bool" where
  "Formatter_is_file_excluded e file =
     (if in_exclude_directory e file (EXCLUDE_DIRECTORIES e) then True
      else if is_exclude_file e file EXCLUDE_FILES then True
      else False)"

section \<open>File selection\<close>

text \<open>\<open>generate_list_of_files_to_format\<close>: the chain of the three recursive globs.\<close>

definition candidates :: "env \<Rightarrow> path list" where
  "candidates e =
     (let search_path = evaluate_relative_path e (SEARCH_PATH e)
      in glob_recursive e search_path ''*.cpp''
         @ glob_recursive e search_path ''*.c''
         @ glob_recursive e search_path ''*.h'')"

text \<open>The loop of \<open>format.py\<close>; \<open>files\<close> is the list built so far.\<close>

fun collect :: "env \<Rightarrow> path list \<Rightarrow> path list \<Rightarrow> path list" where
  "collect e [] files = files"
| "collect e (file # rest) files =
     (let file' = resolve e file
      in if \<not> is_file_excluded e file' then collect e rest (files @ [file'])
         else collect e rest files)"

definition generate_list_of_files_to_format :: "env \<Rightarrow> path list" where
  "generate_list_of_files_to_format e = collect e (candidates e) []"

text \<open>
  The class \<open>Formatter\<close> of \<open>formatter.py\<close> defines six methods.  An attribute access
  \<open>self.name\<close> finds the method bound to \<open>name\<close> or raises \<open>AttributeError\<close>; calling
  a method with arguments it does not take raises \<open>TypeError\<close>.
\<close>

datatype member =
  M_execute_command | M_is_file_excluded | M_generate_list_of_files_to_format
| M_correct_uncrustify_version | M_format_cpp | M_run

definition Formatter_methods :: "(string \<times> member) list" where
  "Formatter_methods =
     [(''_execute_command'', M_execute_command),
      (''_is_file_excluded'', M_is_file_excluded),
      (''_generate_list_of_files_to_format'', M_generate_list_of_files_to_format),
      (''_correct_uncrustify_version'', M_correct_uncrustify_version),
      (''_format_cpp'', M_format_cpp),
      (''run'', M_run)]"

definition Formatter_getattr :: "string \<Rightarrow> error + member" where
  "Formatter_getattr name =
     (case map_of Formatter_methods name of
        None \<Rightarrow> Inl AttributeError
      | Some m \<Rightarrow> Inr m)"

text \<open>
  The loop of \<open>formatter.py\<close>: its condition is \<open>not self.is_file_excluded(file)\<close>, so
  each iteration first looks \<open>is_file_excluded\<close> up on the instance.
\<close>

fun Formatter_collect :: "env \<Rightarrow> path list \<Rightarrow> path list \<Rightarrow> error + path list" where
  "Formatter_collect e [] files = Inr files"
| "Formatter_collect e (file # rest) files =
     (let file' = resolve e file
      in case Formatter_getattr ''is_file_excluded'' of
           Inl err \<Rightarrow> Inl err
         | Inr m \<Rightarrow>
             if m \<noteq> M_is_file_excluded then Inl TypeError
             else if \<not> Formatter_is_file_excluded e file'
             then Formatter_collect e rest (files @ [file'])
             else Formatter_collect e rest files)"

definition Formatter_generate_list_of_files_to_format :: "env \<Rightarrow> error + path list" where
  "Formatter_generate_list_of_files_to_format e = Formatter_collect e (candidates e) []"

section \<open>Effects\<close>

text \<open>
  What a run changes: the files of the working directory that the program writes and
  removes (by name, with their content), the lines printed to standard output, and the
  command lines handed to \<open>subprocess.Popen\<close>, each with the files on disk at that moment.
  These files are all named \<open>*.txt\<close>, so they never show up in the globs above.
\<close>

record world =
  disk :: "string \<rightharpoonup> string"
  stdout :: "string list"
  launched :: "(string \<times> (string \<rightharpoonup> string)) list"

datatype outcome = Returned | SystemExit int | Raised error

definition print :: "string \<Rightarrow> world \<Rightarrow> world" where
  "print line w = w\<lparr>stdout := stdout w @ [line]\<rparr>"

definition write_file :: "string \<Rightarrow> string \<Rightarrow> world \<Rightarrow> world" where
  "write_file name content w = w\<lparr>disk := (disk w)(name \<mapsto> content)\<rparr>"

definition remove :: "string \<Rightarrow> world \<Rightarrow> world" where
  "remove name w = w\<lparr>disk := (disk w)(name := None)\<rparr>"

text \<open>Decimal rendering, \<open>str(n)\<close> of a Python integer.\<close>

fun digits :: "nat \<Rightarrow> string" where
  "digits n =
     (if n < 10 then [''0123456789'' ! n]
      else digits (n div 10) @ [''0123456789'' ! (n mod 10)])"

definition str_int :: "int \<Rightarrow> string" where
  "str_int i = (if i < 0 then ''-'' @ digits (nat (- i)) else digits (nat i))"

definition zfill :: "nat \<Rightarrow> string \<Rightarrow> string" where
  "zfill width s = replicate (width - length s) CHR ''0'' @ s"

text \<open>\<open>datetime.now().strftime("%Y-%m-%d-%H-%M-%S.txt")\<close>.\<close>

definition log_file_name :: "datetime \<Rightarrow> string" where
  "log_file_name t =
     zfill 4 (digits (year t)) @ ''-'' @ zfill 2 (digits (month t)) @ ''-''
     @ zfill 2 (digits (day t)) @ ''-'' @ zfill 2 (digits (hour t)) @ ''-''
     @ zfill 2 (digits (minute t)) @ ''-'' @ zfill 2 (digits (second t)) @ ''.txt''"

text \<open>\<open>bytes.strip(chars)\<close>.\<close>

definition strip :: "string \<Rightarrow> string \<Rightarrow> string" where
  "strip chars s =
     rev (dropWhile (\<lambda>c. c \<in> set chars) (rev (dropWhile (\<lambda>c. c \<in> set chars) s)))"

definition correct_uncrustify_version :: "env \<Rightarrow> error + bool" where
  "correct_uncrustify_version e =
     (case version_output e of
        Inl err \<Rightarrow> Inl err
      | Inr out \<Rightarrow> Inr (strip [CHR 0x0D, CHR 0x0A] out = UNCRUSTIFY_VERSION_TO_CHECK))"

text \<open>The warning; the f-string renders the bytes constant as \<open>b'...'\<close>.\<close>

definition version_warning :: string where
  "version_warning =
     ''WARNING: You are using the wrong uncrustify version. Please install b''
     @ [CHR 0x27] @ UNCRUSTIFY_VERSION_TO_CHECK @ [CHR 0x27]"

text \<open>
  \<open>execute_command\<close>: echo the command, launch it, wait, give back its return code.
  An exception of the launch propagates.
\<close>

definition execute_command :: "env \<Rightarrow> string \<Rightarrow> world \<Rightarrow> (error + int) \<times> world" where
  "execute_command e command w =
     (let w1 = print (''> '' @ command) w;
          w2 = w1\<lparr>launched := launched w1 @ [(command, disk w1)]\<rparr>
      in (popen e command (disk w1), w2))"

definition check_args_of :: "bool \<Rightarrow> string" where
  "check_args_of check = (if check then ''--check'' else ''--replace --no-backup --if-changed'')"

definition temp_file_name :: string where
  "temp_file_name = ''uncrustify_temp.txt''"

definition command_line :: "path \<Rightarrow> bool \<Rightarrow> string" where
  "command_line config check =
     ''uncrustify -c '' @ as_posix config @ '' '' @ check_args_of check
     @ '' -F '' @ temp_file_name"

definition manifest :: "path list \<Rightarrow> string" where
  "manifest files = concat (map (\<lambda>file. as_posix file @ [CHR 0x0A]) files)"

definition exclusion_log :: "env \<Rightarrow> string" where
  "exclusion_log e =
     join ('','' @ [CHR 0x0A]) (map as_posix (EXCLUDE_DIRECTORIES e))
     @ [CHR 0x0A, CHR 0x0A]
     @ join ('','' @ [CHR 0x0A]) (map as_posix EXCLUDE_FILES)"

text \<open>
  The last lines of \<open>format_cpp\<close>, which are the same text in both files: execute the
  command, remove the temp file, and on a non-zero exit code print the notice and exit
  with that code.  When the launch raises, nothing after it runs.
\<close>

definition invoke_and_clean_up :: "env \<Rightarrow> string \<Rightarrow> world \<Rightarrow> outcome \<times> world" where
  "invoke_and_clean_up e command w =
     (case execute_command e command w of
        (Inl err, w1) \<Rightarrow> (Raised err, w1)
      | (Inr exit_code, w1) \<Rightarrow>
          (let w2 = remove temp_file_name w1
           in if exit_code \<noteq> 0
              then (SystemExit exit_code,
                    print (''COMMAND FAILED (exit code: '' @ str_int exit_code @ '')'') w2)
              else (Returned, w2)))"

text \<open>\<open>format_cpp\<close> of \<open>format.py\<close>.\<close>

definition format_cpp :: "bool \<Rightarrow> env \<Rightarrow> world \<Rightarrow> outcome \<times> world" where
  "format_cpp check e w =
     (let w1 = write_file (log_file_name (now e)) (exclusion_log e) w
      in case correct_uncrustify_version e of
           Inl err \<Rightarrow> (Raised err, w1)
         | Inr ok \<Rightarrow>
             (let w2 = (if \<not> ok then print version_warning w1 else w1);
                  files = generate_list_of_files_to_format e;
                  w3 = write_file temp_file_name (manifest files) w2
              in invoke_and_clean_up e (command_line (CONFIG_PATH e) check) w3))"

text \<open>\<open>Formatter._format_cpp\<close> of \<open>formatter.py\<close>.\<close>

definition Formatter_format_cpp :: "bool \<Rightarrow> env \<Rightarrow> world \<Rightarrow> outcome \<times> world" where
  "Formatter_format_cpp check e w =
     (case correct_uncrustify_version e of
        Inl err \<Rightarrow> (Raised err, w)
      | Inr ok \<Rightarrow>
          (let w1 = (if \<not> ok then print version_warning w else w)
           in case Formatter_generate_list_of_files_to_format e of
                Inl err \<Rightarrow> (Raised err, w1)
              | Inr files \<Rightarrow>
                  (let w2 = write_file temp_file_name (manifest files) w1
                   in invoke_and_clean_up e (command_line (Formatter_CONFIG_PATH e) check) w2)))"

text \<open>
  The command line interface: the parser declares one option, \<open>--check\<close> or \<open>-c\<close>, with
  \<open>action='store_true'\<close>; its value is the argument of \<open>format_cpp\<close>.
\<close>

datatype action = StoreTrue

definition parser_arguments :: "(string list \<times> action) list" where
  "parser_arguments = [([''--check'', ''-c''], StoreTrue)]"

definition main :: "bool \<Rightarrow> env \<Rightarrow> world \<Rightarrow> outcome \<times> world" where
  "main check e w = format_cpp check e w"

definition Formatter_run :: "bool \<Rightarrow> env \<Rightarrow> world \<Rightarrow> outcome \<times> world" where
  "Formatter_run check e w = Formatter_format_cpp check e w"

text \<open>
  The exit status of the process: 0 when the script runs to its end, the low eight bits of
  the argument of \<open>exit\<close>, 1 for an uncaught exception.
\<close>

fun exit_status :: "outcome \<Rightarrow> int" where
  "exit_status Returned = 0"
| "exit_status (SystemExit n) = n mod 256"
| "exit_status (Raised err) = 1"

section \<open>The files a walk should find\<close>

text \<open>
  The entries below the directory the globs walk, by the segments that lead to them from
  there, and among them the files whose name ends in one of the three extensions, as the
  paths under which the walk meets them.
\<close>

definition has_source_extension :: "string \<Rightarrow> bool" where
  "has_source_extension name \<longleftrightarrow>
     suffix ''.cpp'' name \<or> suffix ''.c'' name \<or> suffix ''.h'' name"

definition search_root :: "env \<Rightarrow> string list" where
  "search_root e =
     (case resolve e (evaluate_relative_path e (SEARCH_PATH e)) of Abs dir \<Rightarrow> dir | Rel dir \<Rightarrow> dir)"

definition below_search_root :: "env \<Rightarrow> string list list" where
  "below_search_root e =
     filter (\<lambda>r. r \<noteq> []) (List.map_filter (relative_to (search_root e)) (entries (fs e)))"

definition source_files :: "env \<Rightarrow> path list" where
  "source_files e =
     map (\<lambda>r. joinpath (evaluate_relative_path e (SEARCH_PATH e)) (Rel r))
       (filter (\<lambda>r. has_source_extension (last r)) (below_search_root e))"

section \<open>Example environments\<close>

text \<open>Canonical paths on a file system without symbolic links.\<close>

fun normpath_onto :: "string list \<Rightarrow> string list \<Rightarrow> string list" where
  "normpath_onto acc [] = rev acc"
| "normpath_onto acc (p # ps) =
     (if p = ''..'' then normpath_onto (tl acc) ps
      else if p = ''.'' \<or> p = [] then normpath_onto acc ps
      else normpath_onto (p # acc) ps)"

definition normpath :: "string list \<Rightarrow> string list" where
  "normpath ps = normpath_onto [] ps"

text \<open>
  A project \<open>/proj\<close> with the script in \<open>/proj/scripts\<close>, started from that directory, with
  the expected tool installed and succeeding.
\<close>

definition project_entries :: "string list list" where
  "project_entries =
     [[''proj''],
      [''proj'', ''src''],
      [''proj'', ''src'', ''main.cpp''],
      [''proj'', ''src'', ''util.c''],
      [''proj'', ''src'', ''util.h''],
      [''proj'', ''src'', ''foo.cpp''],
      [''proj'', ''src'', ''notes.txt''],
      [''proj'', ''build''],
      [''proj'', ''build'', ''gen.cpp''],
      [''proj'', ''buildfoo''],
      [''proj'', ''buildfoo'', ''x.cpp''],
      [''proj'', ''tests''],
      [''proj'', ''tests'', ''unit''],
      [''proj'', ''tests'', ''unit'', ''build_out''],
      [''proj'', ''tests'', ''unit'', ''build_out'', ''t.cpp''],
      [''proj'', ''tests'', ''unit'', ''test.cpp''],
      [''proj'', ''scripts''],
      [''proj'', ''scripts'', ''format.py'']]"

definition noon :: datetime where
  "noon = \<lparr>year = 2024, month = 3, day = 9, hour = 12, minute = 0, second = 7\<rparr>"

definition project_env :: env where
  "project_env =
     \<lparr>fs = \<lparr>entries = project_entries, realpath = normpath\<rparr>,
      PATH_OF_THIS_FILE = [''proj'', ''scripts''],
      cwd = [''proj'', ''scripts''],
      now = noon,
      version_output = Inr (''Uncrustify-0.72.0_f'' @ [CHR 0x0A]),
      popen = (\<lambda>command files. Inr 0)\<rparr>"


text \<open>The same project, with \<open>/proj/src/alias.cpp\<close> a symbolic link to \<open>main.cpp\<close>.\<close>

definition linked_env :: env where
  "linked_env =
     project_env\<lparr>fs :=
       \<lparr>entries = project_entries @ [[''proj'', ''src'', ''alias.cpp'']],
        realpath = (\<lambda>ps. if normpath ps = [''proj'', ''src'', ''alias.cpp'']
                          then [''proj'', ''src'', ''main.cpp''] else normpath ps)\<rparr>\<rparr>"

definition empty_world :: world where
  "empty_world = \<lparr>disk = Map.empty, stdout = [], launched = []\<rparr>"

section \<open>The exclusion predicate, characterised\<close>

lemma startswith_prefix: "startswith s p = prefix p s"
  by (induction s p rule: startswith.induct) auto

lemma in_exclude_directory_iff:
  "in_exclude_directory e file ds =
     (\<exists>d \<in> set ds. prefix (as_posix (evaluate_relative_path e d)) (as_posix file))"
  by (induction ds) (simp_all add: startswith_prefix)

lemma is_exclude_file_iff:
  "is_exclude_file e file xs =
     (\<exists>f \<in> set xs. as_posix file = as_posix (evaluate_relative_path e f))"
  by (induction xs) simp_all

text \<open>
  C3: the exclusion predicate holds for a file exactly when the posix string of its path
  starts with the posix string of the resolved path of some excluded directory (a prefix of
  the string, not of the segments), or equals the posix string of the resolved path of
  some excluded file.  The predicate of \<open>formatter.py\<close> is the same one.
\<close>

theorem is_file_excluded_iff:
  "(is_file_excluded e file \<longleftrightarrow>
      (\<exists>d \<in> set (EXCLUDE_DIRECTORIES e).
          prefix (as_posix (evaluate_relative_path e d)) (as_posix file))
      \<or> (\<exists>f \<in> set EXCLUDE_FILES. as_posix file = as_posix (evaluate_relative_path e f)))
   \<and> Formatter_is_file_excluded e file = is_file_excluded e file"
  by (simp add: is_file_excluded_def Formatter_is_file_excluded_def
      in_exclude_directory_iff is_exclude_file_iff)

text \<open>
  The sibling directory \<open>/proj/buildfoo\<close> is excluded by the entry \<open>../build\<close>, whose
  resolved path is \<open>/proj/build\<close>.
\<close>

theorem is_file_excluded_iff_witness:
  "Rel [''..'', ''build''] \<in> set (EXCLUDE_DIRECTORIES project_env)
   \<and> as_posix (evaluate_relative_path project_env (Rel [''..'', ''build''])) = ''/proj/build''
   \<and> as_posix (Abs [''proj'', ''buildfoo'', ''x.cpp'']) = ''/proj/buildfoo/x.cpp''
   \<and> is_file_excluded project_env (Abs [''proj'', ''buildfoo'', ''x.cpp''])
   \<and> Formatter_is_file_excluded project_env (Abs [''proj'', ''buildfoo'', ''x.cpp''])"
proof -
  have d: "Rel [''..'', ''build''] \<in> set (EXCLUDE_DIRECTORIES project_env)"
    by (simp add: EXCLUDE_DIRECTORIES_def)
  have p: "as_posix (evaluate_relative_path project_env (Rel [''..'', ''build''])) = ''/proj/build''"
    by code_simp
  have f: "as_posix (Abs [''proj'', ''buildfoo'', ''x.cpp'']) = ''/proj/buildfoo/x.cpp''"
    by code_simp
  have "prefix (as_posix (evaluate_relative_path project_env (Rel [''..'', ''build''])))
          (as_posix (Abs [''proj'', ''buildfoo'', ''x.cpp'']))"
    unfolding p f by (simp add: prefix_def)
  with d is_file_excluded_iff [of project_env "Abs [''proj'', ''buildfoo'', ''x.cpp'']"]
  have "is_file_excluded project_env (Abs [''proj'', ''buildfoo'', ''x.cpp''])"
   and "Formatter_is_file_excluded project_env (Abs [''proj'', ''buildfoo'', ''x.cpp''])"
    by blast+
  with d p f show ?thesis by blast
qed

section \<open>The misspelt call of the class variant\<close>

lemma Formatter_getattr_missing: "Formatter_getattr ''is_file_excluded'' = Inl AttributeError"
  by (simp add: Formatter_getattr_def Formatter_methods_def)

lemma Formatter_collect_raises:
  "cs \<noteq> [] \<Longrightarrow> Formatter_collect e cs files = Inl AttributeError"
  by (cases cs) (simp_all add: Formatter_getattr_missing)

text \<open>
  C2: whenever the three globs yield at least one path,
  \<open>Formatter._generate_list_of_files_to_format\<close> raises \<open>AttributeError\<close>, since
  \<open>is_file_excluded\<close> is not an attribute of the class; \<open>Formatter.run\<close> then ends in an
  exception (this one, when the version check itself returns), launches no command and
  writes no file.
\<close>

theorem Formatter_generate_list_raises:
  assumes "candidates e \<noteq> []"
  shows "Formatter_generate_list_of_files_to_format e = Inl AttributeError
         \<and> (\<exists>err. fst (Formatter_run check e w) = Raised err)
         \<and> (version_output e = Inr v \<longrightarrow>
              fst (Formatter_run check e w) = Raised AttributeError)
         \<and> launched (snd (Formatter_run check e w)) = launched w
         \<and> disk (snd (Formatter_run check e w)) = disk w"
  using assms
  by (auto simp: Formatter_generate_list_of_files_to_format_def Formatter_collect_raises
      Formatter_run_def Formatter_format_cpp_def correct_uncrustify_version_def print_def
      split: sum.splits)

theorem Formatter_generate_list_raises_witness:
  "candidates project_env \<noteq> []
   \<and> Formatter_generate_list_of_files_to_format project_env = Inl AttributeError
   \<and> fst (Formatter_run True project_env empty_world) = Raised AttributeError
   \<and> launched (snd (Formatter_run True project_env empty_world)) = []"
proof -
  have c: "candidates project_env \<noteq> []" by code_simp
  have v: "version_output project_env = Inr (''Uncrustify-0.72.0_f'' @ [CHR 0x0A])"
    by (simp add: project_env_def)
  from Formatter_generate_list_raises
         [OF c, of True empty_world "''Uncrustify-0.72.0_f'' @ [CHR 0x0A]"] v c
  show ?thesis by (simp add: empty_world_def)
qed

section \<open>The run of \<open>format_cpp\<close>\<close>

lemma invoke_and_clean_up_Inr:
  assumes "popen e command (disk w) = Inr code"
  shows "invoke_and_clean_up e command w =
           (if code \<noteq> 0 then SystemExit code else Returned,
            \<lparr>disk = (disk w)(temp_file_name := None),
             stdout = stdout w @ [''> '' @ command]
                 @ (if code \<noteq> 0 then [''COMMAND FAILED (exit code: '' @ str_int code @ '')''] else []),
             launched = launched w @ [(command, disk w)]\<rparr>)"
  using assms
  by (cases w) (simp add: invoke_and_clean_up_def execute_command_def print_def remove_def Let_def)

lemma invoke_and_clean_up_Inl:
  assumes "popen e command (disk w) = Inl err"
  shows "invoke_and_clean_up e command w =
           (Raised err,
            \<lparr>disk = disk w, stdout = stdout w @ [''> '' @ command],
             launched = launched w @ [(command, disk w)]\<rparr>)"
  using assms
  by (cases w) (simp add: invoke_and_clean_up_def execute_command_def print_def remove_def Let_def)

lemma format_cpp_Inr:
  assumes "version_output e = Inr v"
  shows "format_cpp check e w =
           invoke_and_clean_up e (command_line (CONFIG_PATH e) check)
             \<lparr>disk = (disk w)(log_file_name (now e) \<mapsto> exclusion_log e,
                                temp_file_name \<mapsto> manifest (generate_list_of_files_to_format e)),
              stdout = stdout w @
                   (if strip [CHR 0x0D, CHR 0x0A] v = UNCRUSTIFY_VERSION_TO_CHECK then []
                    else [version_warning]),
              launched = launched w\<rparr>"
  using assms
  by (cases w) (simp add: format_cpp_def correct_uncrustify_version_def write_file_def print_def Let_def)

lemma format_cpp_Inl:
  assumes "version_output e = Inl err"
  shows "format_cpp check e w =
           (Raised err, \<lparr>disk = (disk w)(log_file_name (now e) \<mapsto> exclusion_log e),
                         stdout = stdout w, launched = launched w\<rparr>)"
  using assms
  by (cases w) (simp add: format_cpp_def correct_uncrustify_version_def write_file_def Let_def)

lemma log_file_name_neq_temp: "log_file_name t \<noteq> temp_file_name"
proof
  assume "log_file_name t = temp_file_name"
  then have "set (log_file_name t) = set temp_file_name" by simp
  moreover have "CHR ''-'' \<in> set (log_file_name t)" by (simp add: log_file_name_def)
  moreover have "CHR ''-'' \<notin> set temp_file_name" by (simp add: temp_file_name_def)
  ultimately show False by simp
qed

text \<open>
  C6: in every run of \<open>format_cpp\<close> that gets to the invocation and in which the tool
  gives a return code, zero or not, the manifest \<open>uncrustify_temp.txt\<close> is on disk when the
  tool is launched, holding the posix path of each selected file followed by a newline,
  and is no longer on disk when \<open>format_cpp\<close> ends.
\<close>

theorem manifest_removed_after_invocation:
  assumes "version_output e = Inr v"
      and "popen e (command_line (CONFIG_PATH e) check)
             ((disk w)(log_file_name (now e) \<mapsto> exclusion_log e,
                       temp_file_name \<mapsto> manifest (generate_list_of_files_to_format e)))
           = Inr code"
  shows "disk (snd (format_cpp check e w)) temp_file_name = None
         \<and> temp_file_name = ''uncrustify_temp.txt''
         \<and> (\<exists>files. launched (snd (format_cpp check e w))
                      = launched w @ [(command_line (CONFIG_PATH e) check, files)]
                \<and> files temp_file_name
                    = Some (concat (map (\<lambda>file. as_posix file @ [CHR 0x0A])
                                       (generate_list_of_files_to_format e))))"
  using assms
  by (simp add: format_cpp_Inr invoke_and_clean_up_Inr manifest_def temp_file_name_def)

theorem manifest_removed_after_invocation_witness:
  "version_output (project_env\<lparr>popen := (\<lambda>c d. Inr 3)\<rparr>) = Inr (''Uncrustify-0.72.0_f'' @ [CHR 0x0A])
   \<and> disk (snd (format_cpp False (project_env\<lparr>popen := (\<lambda>c d. Inr 3)\<rparr>) empty_world))
        ''uncrustify_temp.txt'' = None
   \<and> disk (snd (format_cpp True project_env empty_world)) ''uncrustify_temp.txt'' = None"
proof -
  let ?e = "project_env\<lparr>popen := (\<lambda>c d. Inr 3)\<rparr>"
  have v: "version_output ?e = Inr (''Uncrustify-0.72.0_f'' @ [CHR 0x0A])"
    by (simp add: project_env_def)
  have v0: "version_output project_env = Inr (''Uncrustify-0.72.0_f'' @ [CHR 0x0A])"
    by (simp add: project_env_def)
  have p: "popen ?e c d = Inr 3" for c d by simp
  have p0: "popen project_env c d = Inr 0" for c d by (simp add: project_env_def)
  have a: "disk (snd (format_cpp False ?e empty_world)) ''uncrustify_temp.txt'' = None"
    using manifest_removed_after_invocation [OF v p, of False empty_world]
    unfolding temp_file_name_def by (rule conjunct1)
  have b: "disk (snd (format_cpp True project_env empty_world)) ''uncrustify_temp.txt'' = None"
    using manifest_removed_after_invocation [OF v0 p0, of True empty_world]
    unfolding temp_file_name_def by (rule conjunct1)
  from v a b show ?thesis by blast
qed


text \<open>
  C7: when the tool gives a non-zero return code, the last line printed is the failure
  notice and the run ends in \<open>exit\<close> with that code, which for the codes 1 to 255 a
  process can exit with is the exit status; when it gives zero, \<open>format_cpp\<close> returns and
  the exit status is 0.
\<close>

theorem exit_code_propagated:
  assumes "version_output e = Inr v"
      and "popen e (command_line (CONFIG_PATH e) check)
             ((disk w)(log_file_name (now e) \<mapsto> exclusion_log e,
                       temp_file_name \<mapsto> manifest (generate_list_of_files_to_format e)))
           = Inr code"
  shows "(code \<noteq> 0 \<longrightarrow>
            fst (main check e w) = SystemExit code
            \<and> last (stdout (snd (main check e w)))
                = ''COMMAND FAILED (exit code: '' @ str_int code @ '')''
            \<and> (0 < code \<and> code < 256 \<longrightarrow> exit_status (fst (main check e w)) = code))
         \<and> (code = 0 \<longrightarrow>
            fst (format_cpp check e w) = Returned
            \<and> exit_status (fst (main check e w)) = 0)"
  using assms
  by (simp add: main_def format_cpp_Inr invoke_and_clean_up_Inr)

theorem exit_code_propagated_witness:
  "fst (main False (project_env\<lparr>popen := (\<lambda>c d. Inr 3)\<rparr>) empty_world) = SystemExit 3
   \<and> last (stdout (snd (main False (project_env\<lparr>popen := (\<lambda>c d. Inr 3)\<rparr>) empty_world)))
       = ''COMMAND FAILED (exit code: 3)''
   \<and> exit_status (fst (main False (project_env\<lparr>popen := (\<lambda>c d. Inr 3)\<rparr>) empty_world)) = 3
   \<and> fst (format_cpp True project_env empty_world) = Returned
   \<and> exit_status (fst (main True project_env empty_world)) = 0"
proof -
  let ?e = "project_env\<lparr>popen := (\<lambda>c d. Inr 3)\<rparr>"
  have v: "version_output ?e = Inr (''Uncrustify-0.72.0_f'' @ [CHR 0x0A])"
    by (simp add: project_env_def)
  have v0: "version_output project_env = Inr (''Uncrustify-0.72.0_f'' @ [CHR 0x0A])"
    by (simp add: project_env_def)
  have p: "popen ?e c d = Inr 3" for c d by simp
  have p0: "popen project_env c d = Inr 0" for c d by (simp add: project_env_def)
  have s: "str_int 3 = ''3''" by (simp add: str_int_def)
  from exit_code_propagated [OF v p, of False empty_world]
       exit_code_propagated [OF v0 p0, of True empty_world] s
  show ?thesis by simp
qed

lemma launched_invoke_and_clean_up:
  "launched (snd (invoke_and_clean_up e command w)) = launched w @ [(command, disk w)]"
proof (cases "popen e command (disk w)")
  case (Inl err)
  then show ?thesis by (simp add: invoke_and_clean_up_Inl)
next
  case (Inr code)
  then show ?thesis by (simp add: invoke_and_clean_up_Inr)
qed

lemma command_line_text:
  "command_line config True = ''uncrustify -c '' @ as_posix config @ '' --check -F uncrustify_temp.txt''"
  "command_line config False = ''uncrustify -c '' @ as_posix config
      @ '' --replace --no-backup --if-changed -F uncrustify_temp.txt''"
  by (simp_all add: command_line_def check_args_of_def temp_file_name_def)

text \<open>
  C9: the parser declares the single option \<open>--check\<close> / \<open>-c\<close>; with the flag set the command
  line launched is \<open>uncrustify -c CONFIG --check -F uncrustify_temp.txt\<close>, and without it
  \<open>uncrustify -c CONFIG --replace --no-backup --if-changed -F uncrustify_temp.txt\<close>.
\<close>

theorem command_line_of_flag:
  assumes "version_output e = Inr v"
  shows "map fst parser_arguments = [[''--check'', ''-c'']]
         \<and> map fst (launched (snd (main True e w)))
             = map fst (launched w)
               @ [''uncrustify -c '' @ as_posix (CONFIG_PATH e)
                  @ '' --check -F uncrustify_temp.txt'']
         \<and> map fst (launched (snd (main False e w)))
             = map fst (launched w)
               @ [''uncrustify -c '' @ as_posix (CONFIG_PATH e)
                  @ '' --replace --no-backup --if-changed -F uncrustify_temp.txt'']"
  using assms
  by (simp add: parser_arguments_def main_def format_cpp_Inr launched_invoke_and_clean_up
      command_line_text)

theorem command_line_of_flag_witness:
  "version_output project_env = Inr (''Uncrustify-0.72.0_f'' @ [CHR 0x0A])
   \<and> map fst (launched (snd (main True project_env empty_world)))
       = [''uncrustify -c /proj/scripts/uncrustify.cfg --check -F uncrustify_temp.txt'']
   \<and> map fst (launched (snd (main False project_env empty_world)))
       = [''uncrustify -c /proj/scripts/uncrustify.cfg --replace --no-backup --if-changed -F uncrustify_temp.txt'']"
proof -
  have v: "version_output project_env = Inr (''Uncrustify-0.72.0_f'' @ [CHR 0x0A])"
    by (simp add: project_env_def)
  have c: "as_posix (CONFIG_PATH project_env) = ''/proj/scripts/uncrustify.cfg''"
    by code_simp
  have l: "launched empty_world = []" by (simp add: empty_world_def)
  from command_line_of_flag [OF v, of empty_world] v
  show ?thesis unfolding c l by simp
qed

section \<open>What the selection depends on\<close>











section \<open>The version check\<close>




section \<open>Files left on disk\<close>

lemma disk_invoke_and_clean_up:
  "disk (snd (invoke_and_clean_up e command w)) =
     (case popen e command (disk w) of
        Inl err \<Rightarrow> disk w
      | Inr code \<Rightarrow> (disk w)(temp_file_name := None))"
  by (cases "popen e command (disk w)")
     (simp_all add: invoke_and_clean_up_Inl invoke_and_clean_up_Inr)

lemma fst_invoke_and_clean_up_Raised:
  "fst (invoke_and_clean_up e command w) = Raised err \<longleftrightarrow> popen e command (disk w) = Inl err"
  by (cases "popen e command (disk w)")
     (simp_all add: invoke_and_clean_up_Inl invoke_and_clean_up_Inr)

text \<open>
  C5, as stated, fails: a run of \<open>format.py\<close> on the example project, from an empty working
  directory, with the tool succeeding, ends normally and leaves the log file it created,
  \<open>2024-03-09-12-00-07.txt\<close>, on disk.
\<close>

theorem log_file_left_behind:
  "disk empty_world ''2024-03-09-12-00-07.txt'' = None
   \<and> fst (main True project_env empty_world) = Returned
   \<and> disk (snd (main True project_env empty_world)) ''2024-03-09-12-00-07.txt''
       = Some (exclusion_log project_env)"
proof -
  have n: "log_file_name (now project_env) = ''2024-03-09-12-00-07.txt''"
    by code_simp
  have v: "version_output project_env = Inr (''Uncrustify-0.72.0_f'' @ [CHR 0x0A])"
    by (simp add: project_env_def)
  have p: "popen project_env c d = Inr 0" for c d by (simp add: project_env_def)
  have "disk empty_world ''2024-03-09-12-00-07.txt'' = None"
    by (simp add: empty_world_def)
  moreover have "fst (main True project_env empty_world) = Returned"
    by (simp add: main_def format_cpp_Inr [OF v] invoke_and_clean_up_Inr [OF p])
  moreover have "disk (snd (main True project_env empty_world)) (log_file_name (now project_env))
       = Some (exclusion_log project_env)"
    using log_file_name_neq_temp [of "now project_env"]
    by (simp add: main_def format_cpp_Inr [OF v] invoke_and_clean_up_Inr [OF p])
  ultimately show ?thesis unfolding n by blast
qed

text \<open>
  C5, amended: every run of \<open>format.py\<close> leaves the timestamped log of the exclusion lists
  on disk, whatever the mode flag and the outcome of the tool; it touches no other file
  but the manifest, which is gone after every run that does not end in an exception.  The
  class variant touches no file but the manifest, gone likewise.
\<close>

theorem files_left_behind:
  "disk (snd (format_cpp check e w)) (log_file_name (now e)) = Some (exclusion_log e)
   \<and> (name \<noteq> log_file_name (now e) \<and> name \<noteq> temp_file_name \<longrightarrow>
        disk (snd (format_cpp check e w)) name = disk w name)
   \<and> ((\<forall>err. fst (format_cpp check e w) \<noteq> Raised err) \<longrightarrow>
        disk (snd (format_cpp check e w)) temp_file_name = None)
   \<and> (name \<noteq> temp_file_name \<longrightarrow>
        disk (snd (Formatter_format_cpp check e w)) name = disk w name)
   \<and> ((\<forall>err. fst (Formatter_format_cpp check e w) \<noteq> Raised err) \<longrightarrow>
        disk (snd (Formatter_format_cpp check e w)) temp_file_name = None)"
proof -
  have a: "disk (snd (format_cpp check e w)) (log_file_name (now e)) = Some (exclusion_log e)"
    using log_file_name_neq_temp [of "now e"]
    by (cases "version_output e")
       (simp_all add: format_cpp_Inl format_cpp_Inr disk_invoke_and_clean_up split: sum.splits)
  have b: "name \<noteq> log_file_name (now e) \<and> name \<noteq> temp_file_name \<longrightarrow>
        disk (snd (format_cpp check e w)) name = disk w name"
    by (cases "version_output e")
       (simp_all add: format_cpp_Inl format_cpp_Inr disk_invoke_and_clean_up split: sum.splits)
  have c: "(\<forall>err. fst (format_cpp check e w) \<noteq> Raised err) \<longrightarrow>
        disk (snd (format_cpp check e w)) temp_file_name = None"
    by (cases "version_output e")
       (simp_all add: format_cpp_Inl format_cpp_Inr disk_invoke_and_clean_up
          fst_invoke_and_clean_up_Raised split: sum.splits)
  have d: "name \<noteq> temp_file_name \<longrightarrow>
        disk (snd (Formatter_format_cpp check e w)) name = disk w name"
    by (simp add: Formatter_format_cpp_def correct_uncrustify_version_def
        disk_invoke_and_clean_up write_file_def print_def split: sum.splits)
  have f: "(\<forall>err. fst (Formatter_format_cpp check e w) \<noteq> Raised err) \<longrightarrow>
        disk (snd (Formatter_format_cpp check e w)) temp_file_name = None"
    by (simp add: Formatter_format_cpp_def correct_uncrustify_version_def
        disk_invoke_and_clean_up fst_invoke_and_clean_up_Raised write_file_def print_def
        split: sum.splits)
  from a b c d f show ?thesis by blast
qed

theorem files_left_behind_witness:
  "fst (format_cpp False project_env empty_world) = Returned
   \<and> disk (snd (format_cpp False project_env empty_world)) ''2024-03-09-12-00-07.txt''
       = Some (exclusion_log project_env)
   \<and> disk (snd (format_cpp False project_env empty_world)) ''uncrustify_temp.txt'' = None
   \<and> disk (snd (format_cpp False project_env empty_world)) ''main.cpp'' = None"
proof -
  have n: "log_file_name (now project_env) = ''2024-03-09-12-00-07.txt''"
    by code_simp
  have v: "version_output project_env = Inr (''Uncrustify-0.72.0_f'' @ [CHR 0x0A])"
    by (simp add: project_env_def)
  have p: "popen project_env c d = Inr 0" for c d by (simp add: project_env_def)
  have r: "fst (format_cpp False project_env empty_world) = Returned"
    by (simp add: format_cpp_Inr [OF v] invoke_and_clean_up_Inr [OF p])
  have m: "''main.cpp'' \<noteq> log_file_name (now project_env) \<and> ''main.cpp'' \<noteq> temp_file_name"
    unfolding n by (simp add: temp_file_name_def)
  have z: "disk empty_world ''main.cpp'' = None" by (simp add: empty_world_def)
  note t = files_left_behind [of False project_env empty_world "''main.cpp''"]
  from t have a: "disk (snd (format_cpp False project_env empty_world)) ''2024-03-09-12-00-07.txt''
       = Some (exclusion_log project_env)"
    unfolding n by blast
  from t r have b: "disk (snd (format_cpp False project_env empty_world)) ''uncrustify_temp.txt'' = None"
    unfolding temp_file_name_def by simp
  from t m z have c: "disk (snd (format_cpp False project_env empty_world)) ''main.cpp'' = None"
    by simp
  from r a b c show ?thesis by blast
qed

section \<open>The working directory\<close>

text \<open>
  C10: the exclusion list depends on the working directory of the process.  Two runs on
  the same file system with the script in the same place, one started in \<open>/proj/scripts\<close>
  and one in \<open>/\<close>, build different exclusion lists (the glob under \<open>../tests\<close> finds
  \<open>build_out\<close> only from the first) and select different files.
\<close>

theorem exclusions_depend_on_cwd:
  "fs (project_env\<lparr>cwd := []\<rparr>) = fs project_env
   \<and> PATH_OF_THIS_FILE (project_env\<lparr>cwd := []\<rparr>) = PATH_OF_THIS_FILE project_env
   \<and> EXCLUDE_DIRECTORIES project_env
       = EXCLUDE_DIRECTORIES (project_env\<lparr>cwd := []\<rparr>)
         @ [Rel [''..'', ''tests'', ''unit'', ''build_out'']]
   \<and> Abs [''proj'', ''tests'', ''unit'', ''build_out'', ''t.cpp'']
       \<notin> set (generate_list_of_files_to_format project_env)
   \<and> Abs [''proj'', ''tests'', ''unit'', ''build_out'', ''t.cpp'']
       \<in> set (generate_list_of_files_to_format (project_env\<lparr>cwd := []\<rparr>))"
proof -
  have "fs (project_env\<lparr>cwd := []\<rparr>) = fs project_env"
    and "PATH_OF_THIS_FILE (project_env\<lparr>cwd := []\<rparr>) = PATH_OF_THIS_FILE project_env"
    by simp_all
  moreover have "EXCLUDE_DIRECTORIES project_env
       = EXCLUDE_DIRECTORIES (project_env\<lparr>cwd := []\<rparr>)
         @ [Rel [''..'', ''tests'', ''unit'', ''build_out'']]"
    by code_simp
  moreover have "Abs [''proj'', ''tests'', ''unit'', ''build_out'', ''t.cpp'']
       \<notin> set (generate_list_of_files_to_format project_env)"
    by code_simp
  moreover have "Abs [''proj'', ''tests'', ''unit'', ''build_out'', ''t.cpp'']
       \<in> set (generate_list_of_files_to_format (project_env\<lparr>cwd := []\<rparr>))"
    by code_simp
  ultimately show ?thesis by blast
qed

theorem exclusions_depend_on_cwd_witness:
  "EXCLUDE_DIRECTORIES project_env \<noteq> EXCLUDE_DIRECTORIES (project_env\<lparr>cwd := []\<rparr>)
   \<and> generate_list_of_files_to_format project_env
       \<noteq> generate_list_of_files_to_format (project_env\<lparr>cwd := []\<rparr>)"
  using exclusions_depend_on_cwd by auto


section \<open>The candidate list\<close>

lemma fnmatch_literal: "CHR ''*'' \<notin> set lit \<Longrightarrow> fnmatch lit s = (lit = s)"
  by (induction lit s rule: fnmatch.induct) auto

lemma fnmatch_star_literal:
  "CHR ''*'' \<notin> set lit \<Longrightarrow> fnmatch (CHR ''*'' # lit) s = suffix lit s"
proof (induction s)
  case Nil
  then show ?case by (simp add: fnmatch_literal) 
next
  case (Cons c cs)
  then show ?case by (auto simp: fnmatch_literal suffix_Cons)
qed

lemma suffix_last: "suffix xs ys \<Longrightarrow> xs \<noteq> [] \<Longrightarrow> last ys = last xs"
  by (auto simp: suffix_def)

lemma fnmatch_extensions:
  "fnmatch ''*.cpp'' n = suffix ''.cpp'' n"
  "fnmatch ''*.c'' n = suffix ''.c'' n"
  "fnmatch ''*.h'' n = suffix ''.h'' n"
  by (simp_all add: fnmatch_star_literal)

lemma extensions_exclusive:
  "suffix ''.cpp'' n \<Longrightarrow> \<not> suffix ''.c'' n"
  "suffix ''.cpp'' n \<Longrightarrow> \<not> suffix ''.h'' n"
  "suffix ''.c'' n \<Longrightarrow> \<not> suffix ''.h'' n"
  by (auto dest!: suffix_last)

lemma collect_filter:
  "collect e cs files = files @ filter (\<lambda>p. \<not> is_file_excluded e p) (map (resolve e) cs)"
  by (induction cs arbitrary: files) (simp_all add: Let_def)

lemma generate_list_filter:
  "generate_list_of_files_to_format e =
     filter (\<lambda>p. \<not> is_file_excluded e p) (map (resolve e) (candidates e))"
  by (simp add: generate_list_of_files_to_format_def collect_filter)

lemma count_list_filter:
  "count_list (filter P xs) x = (if P x then count_list xs x else 0)"
  by (induction xs) auto

lemma count_list_map: "count_list (map f xs) y = length (filter (\<lambda>x. f x = y) xs)"
  by (induction xs) auto

lemma glob_count:
  "length (filter R (List.map_filter (glob_match d ''*.cpp'') es))
   + length (filter R (List.map_filter (glob_match d ''*.c'') es))
   + length (filter R (List.map_filter (glob_match d ''*.h'') es))
   = length (filter R (filter (\<lambda>r. has_source_extension (last r))
        (filter (\<lambda>r. r \<noteq> []) (List.map_filter (relative_to d) es))))"
proof (induction es)
  case Nil
  then show ?case by simp
next
  case (Cons x xs)
  show ?case
  proof (cases "relative_to d x")
    case None
    with Cons show ?thesis by (simp add: glob_match_def)
  next
    case (Some r)
    with Cons show ?thesis
      using extensions_exclusive [of "last r"]
      by (auto simp add: glob_match_def fnmatch_extensions
          has_source_extension_def)
  qed
qed

lemma candidates_count:
  "length (filter R (candidates e)) = length (filter R (source_files e))"
proof -
  obtain d where d: "resolve e (evaluate_relative_path e (SEARCH_PATH e)) = Abs d"
    by (cases "evaluate_relative_path e (SEARCH_PATH e)") simp_all
  then have r: "search_root e = d" by (simp add: search_root_def)
  show ?thesis
    using glob_count [of "\<lambda>r. R (joinpath (evaluate_relative_path e (SEARCH_PATH e)) (Rel r))" d "entries (fs e)"]
    by (simp add: candidates_def glob_recursive_def d source_files_def below_search_root_def r
        filter_map comp_def Let_def)
qed


text \<open>The walk yields something exactly when there is such a file.\<close>

lemma candidates_empty_iff: "candidates e = [] \<longleftrightarrow> source_files e = []"
proof -
  have "length (candidates e) = length (source_files e)"
    using candidates_count [of "\<lambda>p. True" e] by simp
  then show ?thesis by (metis length_0_conv)
qed

text \<open>
  C4, as stated, fails where two files below the search root resolve to the same path:
  with \<open>/proj/src/alias.cpp\<close> a symbolic link to \<open>/proj/src/main.cpp\<close>, both have the
  extension \<open>.cpp\<close>, neither is excluded, and the resolved path \<open>/proj/src/main.cpp\<close> is
  in the candidate list twice.
\<close>

theorem resolved_path_listed_twice:
  "Abs [''proj'', ''src'', ''main.cpp''] \<in> set (source_files linked_env)
   \<and> Abs [''proj'', ''src'', ''alias.cpp''] \<in> set (source_files linked_env)
   \<and> resolve linked_env (Abs [''proj'', ''src'', ''main.cpp'']) = Abs [''proj'', ''src'', ''main.cpp'']
   \<and> resolve linked_env (Abs [''proj'', ''src'', ''alias.cpp'']) = Abs [''proj'', ''src'', ''main.cpp'']
   \<and> \<not> is_file_excluded linked_env (Abs [''proj'', ''src'', ''main.cpp''])
   \<and> generate_list_of_files_to_format linked_env
       = [Abs [''proj'', ''src'', ''main.cpp''],
          Abs [''proj'', ''tests'', ''unit'', ''test.cpp''],
          Abs [''proj'', ''src'', ''main.cpp''],
          Abs [''proj'', ''src'', ''util.c''],
          Abs [''proj'', ''src'', ''util.h'']]
   \<and> count_list (generate_list_of_files_to_format linked_env)
         (Abs [''proj'', ''src'', ''main.cpp'']) = 2"
proof -
  have "Abs [''proj'', ''src'', ''main.cpp''] \<in> set (source_files linked_env)"
    by code_simp
  moreover have "Abs [''proj'', ''src'', ''alias.cpp''] \<in> set (source_files linked_env)"
    by code_simp
  moreover have "resolve linked_env (Abs [''proj'', ''src'', ''main.cpp''])
      = Abs [''proj'', ''src'', ''main.cpp'']"
    by code_simp
  moreover have "resolve linked_env (Abs [''proj'', ''src'', ''alias.cpp''])
      = Abs [''proj'', ''src'', ''main.cpp'']"
    by code_simp
  moreover have "\<not> is_file_excluded linked_env (Abs [''proj'', ''src'', ''main.cpp''])"
    by code_simp
  moreover have l: "generate_list_of_files_to_format linked_env
       = [Abs [''proj'', ''src'', ''main.cpp''],
          Abs [''proj'', ''tests'', ''unit'', ''test.cpp''],
          Abs [''proj'', ''src'', ''main.cpp''],
          Abs [''proj'', ''src'', ''util.c''],
          Abs [''proj'', ''src'', ''util.h'']]"
    by code_simp
  moreover have "count_list (generate_list_of_files_to_format linked_env)
         (Abs [''proj'', ''src'', ''main.cpp'']) = 2"
    unfolding l by simp
  ultimately show ?thesis by blast
qed

text \<open>
  C4, amended: a path for which the exclusion predicate holds is never in the candidate
  list; a path for which it does not hold is in the list once for each file below the
  search root with extension \<open>.cpp\<close>, \<open>.c\<close> or \<open>.h\<close> that resolves to it.  So the resolved
  path of every such file that is not excluded is in the list, and it is there exactly once
  when exactly one such file resolves to it.
\<close>

theorem candidate_list_counts:
  "count_list (generate_list_of_files_to_format e) p
     = (if is_file_excluded e p then 0
        else length (filter (\<lambda>f. resolve e f = p) (source_files e)))
   \<and> (is_file_excluded e p \<longrightarrow> p \<notin> set (generate_list_of_files_to_format e))
   \<and> (f \<in> set (source_files e) \<and> \<not> is_file_excluded e (resolve e f) \<longrightarrow>
        resolve e f \<in> set (generate_list_of_files_to_format e))
   \<and> (\<not> is_file_excluded e p \<and> length (filter (\<lambda>f. resolve e f = p) (source_files e)) = 1 \<longrightarrow>
        count_list (generate_list_of_files_to_format e) p = 1)"
proof -
  have c: "count_list (generate_list_of_files_to_format e) q
     = (if is_file_excluded e q then 0
        else length (filter (\<lambda>f. resolve e f = q) (source_files e)))" for q
    by (simp add: generate_list_filter count_list_filter count_list_map candidates_count)
  have x: "is_file_excluded e p \<longrightarrow> p \<notin> set (generate_list_of_files_to_format e)"
    by (simp add: generate_list_filter)
  have m: "resolve e f \<in> set (generate_list_of_files_to_format e)"
    if "f \<in> set (source_files e)" "\<not> is_file_excluded e (resolve e f)"
  proof -
    from that(1) have "f \<in> set (filter (\<lambda>g. resolve e g = resolve e f) (source_files e))"
      by simp
    then have "0 < length (filter (\<lambda>g. resolve e g = resolve e f) (source_files e))"
      by (simp only: length_pos_if_in_set)
    with that(2) have "0 < count_list (generate_list_of_files_to_format e) (resolve e f)"
      by (simp add: c)
    then show ?thesis
      using count_notin by fastforce
  qed
  from c [of p] x m show ?thesis by auto
qed

theorem candidate_list_counts_witness:
  "Abs [''proj'', ''src'', ''main.cpp''] \<in> set (source_files project_env)
   \<and> \<not> is_file_excluded project_env (Abs [''proj'', ''src'', ''main.cpp''])
   \<and> length (filter (\<lambda>f. resolve project_env f = Abs [''proj'', ''src'', ''main.cpp''])
               (source_files project_env)) = 1
   \<and> count_list (generate_list_of_files_to_format project_env)
         (Abs [''proj'', ''src'', ''main.cpp'']) = 1
   \<and> is_file_excluded project_env (Abs [''proj'', ''build'', ''gen.cpp''])
   \<and> Abs [''proj'', ''build'', ''gen.cpp''] \<notin> set (generate_list_of_files_to_format project_env)"
proof -
  let ?p = "Abs [''proj'', ''src'', ''main.cpp'']"
  let ?q = "Abs [''proj'', ''build'', ''gen.cpp'']"
  have s: "?p \<in> set (source_files project_env)" by code_simp
  have n: "\<not> is_file_excluded project_env ?p" by code_simp
  have l: "length (filter (\<lambda>f. resolve project_env f = ?p) (source_files project_env)) = 1"
    by code_simp
  have x: "is_file_excluded project_env ?q" by code_simp
  from candidate_list_counts [of project_env ?p ?p] n l
  have a: "count_list (generate_list_of_files_to_format project_env) ?p = 1"
    by simp
  from candidate_list_counts [of project_env ?q ?q] x
  have b: "?q \<notin> set (generate_list_of_files_to_format project_env)"
    by blast
  from s n l a x b show ?thesis by blast
qed

section \<open>The two implementations, compared\<close>







end
